theory Spec2Isabelle
  imports Complex_Main "HOL-Library.Log_Nat"
begin

section \<open>Python numbers\<close>

text \<open>
  Python's \<^verbatim>\<open>int\<close> is unbounded and is modelled by \<^typ>\<open>int\<close>. A Python \<^verbatim>\<open>float\<close> is an
  IEEE-754 binary64 number; it is modelled by the real number it denotes, and every
  floating-point operation rounds its exact result to 53 significant bits, to nearest
  with ties to even (\<open>fl\<close> below). The exponent range of \<open>fl\<close> is not bounded: a rounded
  result of magnitude \<open>2 ^ 1024\<close> or more stands for the infinity of binary64
  (\<open>overflows\<close>). Python raises OverflowError on \<^verbatim>\<open>int(inf)\<close>, on the conversion of an
  int beyond the float range and on a true division of two ints with such a quotient;
  \<open>calculate_days_until_stockout\<close> and the division in \<open>check_stock_levels\<close> are
  modelled with these errors, \<open>calculate_velocity\<close> and \<open>calculate_reorder_quantity\<close>
  for ints within the float range. Subnormal numbers and NaN are outside the model.
\<close>

definition rne :: "real \<Rightarrow> int" where
  \<comment> \<open>the nearest integer, a tie going to the even neighbour\<close>
  "rne x =
     (let f = \<lfloor>x\<rfloor>; d = x - of_int f
      in if d < 1 / 2 then f else if 1 / 2 < d then f + 1 else if even f then f else f + 1)"

definition float_exponent :: "real \<Rightarrow> int" where
  \<comment> \<open>the \<open>e\<close> with \<open>2 ^ e \<le> \<bar>x\<bar> < 2 ^ (e + 1)\<close>, for \<open>x \<noteq> 0\<close>\<close>
  "float_exponent x =
     (if 1 \<le> \<bar>x\<bar> then bitlen \<lfloor>\<bar>x\<bar>\<rfloor> - 1 else - bitlen (\<lceil>1 / \<bar>x\<bar>\<rceil> - 1))"

definition fl :: "real \<Rightarrow> real" where
  \<comment> \<open>rounding to binary64: 53 significant bits\<close>
  "fl x =
     (if x = 0 then 0
      else let ulp = 2 powi (float_exponent x - 52)
           in of_int (rne (x / ulp)) * ulp)"

definition float_of_int :: "int \<Rightarrow> real" where
  \<comment> \<open>\<^verbatim>\<open>float(i)\<close>, also the implicit conversion of an int operand\<close>
  "float_of_int i = fl (of_int i)"

definition py_int :: "real \<Rightarrow> int" where
  \<comment> \<open>\<^verbatim>\<open>int(x)\<close> on a float: truncation towards zero\<close>
  "py_int x = (if 0 \<le> x then \<lfloor>x\<rfloor> else \<lceil>x\<rceil>)"

definition py_round :: "real \<Rightarrow> nat \<Rightarrow> real" where
  \<comment> \<open>\<^verbatim>\<open>round(x, ndigits)\<close> on a float: the float nearest to the decimal with
      \<open>ndigits\<close> places nearest to \<open>x\<close>\<close>
  "py_round x ndigits = fl (of_int (rne (x * 10 ^ ndigits)) / 10 ^ ndigits)"

definition overflows :: "real \<Rightarrow> bool" where
  \<comment> \<open>of a rounded result: it is beyond the largest float, so the float is \<^verbatim>\<open>inf\<close>\<close>
  "overflows x \<longleftrightarrow> 2 ^ 1024 \<le> \<bar>x\<bar>"

definition float_floordiv :: "real \<Rightarrow> real \<Rightarrow> real" where
  \<comment> \<open>\<^verbatim>\<open>vx // wx\<close> on floats, \<open>wx \<noteq> 0\<close>, as CPython computes it: \<^verbatim>\<open>fmod\<close> is exact,
      the difference and the quotient are rounded, and the quotient is snapped to the
      nearest integral value\<close>
  "float_floordiv vx wx =
     (let md = vx - wx * of_int (py_int (vx / wx));
          dv = fl (fl (vx - md) / wx);
          dv' = (if md \<noteq> 0 \<and> (wx < 0) \<noteq> (md < 0) then fl (dv - 1) else dv);
          floordiv = of_int \<lfloor>dv'\<rfloor>
      in if 1 / 2 < fl (dv' - floordiv) then fl (floordiv + 1) else floordiv)"

text \<open>
  A variable that holds an int on one path and a float on another
  (\<^verbatim>\<open>reorder_quantity\<close> in \<^verbatim>\<open>calculate_reorder_quantity\<close>) is a \<open>number\<close>; the
  arithmetic on it is Python's: exact on ints, rounded on floats, the int operand
  converted to float in a mixed operation.
\<close>

datatype number = PyInt int | PyFloat real

fun num_value :: "number \<Rightarrow> real" where
  "num_value (PyInt i) = of_int i"
| "num_value (PyFloat x) = x"

fun num_add :: "number \<Rightarrow> int \<Rightarrow> number" where
  "num_add (PyInt a) b = PyInt (a + b)"
| "num_add (PyFloat a) b = PyFloat (fl (a + float_of_int b))"

fun num_floordiv :: "number \<Rightarrow> int \<Rightarrow> number" where
  \<comment> \<open>\<^verbatim>\<open>a // b\<close> for a divisor \<open>b \<noteq> 0\<close>\<close>
  "num_floordiv (PyInt a) b = PyInt (a div b)"
| "num_floordiv (PyFloat a) b = PyFloat (float_floordiv a (float_of_int b))"

fun num_mul :: "number \<Rightarrow> int \<Rightarrow> number" where
  "num_mul (PyInt a) b = PyInt (a * b)"
| "num_mul (PyFloat a) b = PyFloat (fl (a * float_of_int b))"

fun num_int :: "number \<Rightarrow> int" where
  \<comment> \<open>\<^verbatim>\<open>int(n)\<close>\<close>
  "num_int (PyInt a) = a"
| "num_int (PyFloat a) = py_int a"

datatype py_error = ZeroDivisionError | ValueError | OverflowError

section \<open>Sales history\<close>

text \<open>
  An order of the sales history is a dict with a list of line items under
  \<^verbatim>\<open>"line_items"\<close> (a missing key reads as the empty list); a line item is a dict read
  with \<^verbatim>\<open>.get("catalog_object_id")\<close> and \<^verbatim>\<open>.get("quantity", 0)\<close>. The quantity is
  passed to \<^verbatim>\<open>float()\<close>, which raises on a string that is no number.
\<close>

datatype quantity_field =
    NoQuantity          \<comment> \<open>the key is missing: the default \<open>0\<close>\<close>
  | Quantity real       \<comment> \<open>a value that \<^verbatim>\<open>float()\<close> converts to this float\<close>
  | BadQuantity         \<comment> \<open>a value on which \<^verbatim>\<open>float()\<close> raises\<close>

record line_item =
  catalog_object_id :: "string option"
  quantity :: quantity_field

record order =
  order_id :: string
  created_at :: string
  line_items :: "line_item list"

fun py_float :: "quantity_field \<Rightarrow> py_error + real" where
  "py_float NoQuantity = Inr 0"
| "py_float (Quantity q) = Inr q"
| "py_float BadQuantity = Inl ValueError"

section \<open>ForecasterService\<close>

subsection \<open>calculate_velocity\<close>

fun count_line_items :: "string \<Rightarrow> line_item list \<Rightarrow> real \<Rightarrow> py_error + real" where
  \<comment> \<open>the inner loop, from the running \<^verbatim>\<open>total_units\<close>\<close>
  "count_line_items product_id [] total_units = Inr total_units"
| "count_line_items product_id (li # lis) total_units =
     (if catalog_object_id li = Some product_id then
        (case py_float (quantity li) of
           Inl e \<Rightarrow> Inl e
         | Inr q \<Rightarrow> count_line_items product_id lis (fl (total_units + q)))
      else count_line_items product_id lis total_units)"

fun count_orders :: "string \<Rightarrow> order list \<Rightarrow> real \<Rightarrow> py_error + real" where
  \<comment> \<open>the outer loop over \<^verbatim>\<open>sales_history\<close>\<close>
  "count_orders product_id [] total_units = Inr total_units"
| "count_orders product_id (ord # ords) total_units =
     (case count_line_items product_id (line_items ord) total_units of
        Inl e \<Rightarrow> Inl e
      | Inr total_units' \<Rightarrow> count_orders product_id ords total_units')"

definition calculate_velocity :: "string \<Rightarrow> order list \<Rightarrow> int \<Rightarrow> real" where
  "calculate_velocity product_id sales_history days =
     (case count_orders product_id sales_history 0 of
        Inl e \<Rightarrow> 0   \<comment> \<open>\<^verbatim>\<open>except Exception\<close>: logged, \<open>0.0\<close> returned\<close>
      | Inr total_units \<Rightarrow>
          let velocity = (if 0 < days then fl (total_units / float_of_int days) else 0)
          in py_round velocity 2)"

subsection \<open>calculate_days_until_stockout\<close>

definition calculate_days_until_stockout :: "int \<Rightarrow> real \<Rightarrow> py_error + int option" where
  \<comment> \<open>\<^verbatim>\<open>current_stock / velocity\<close> converts the int to a float first, and raises when it
      is too large; \<^verbatim>\<open>int(days)\<close> raises when the quotient is \<^verbatim>\<open>inf\<close>\<close>
  "calculate_days_until_stockout current_stock velocity =
     (if velocity \<le> 0 then Inr None
      else if overflows (float_of_int current_stock) then Inl OverflowError
      else
        let days = fl (float_of_int current_stock / velocity)
        in if overflows days then Inl OverflowError else Inr (Some (py_int days)))"

subsection \<open>calculate_reorder_quantity\<close>

definition calculate_reorder_quantity :: "real \<Rightarrow> int \<Rightarrow> int \<Rightarrow> int \<Rightarrow> int \<Rightarrow> int" where
  "calculate_reorder_quantity velocity current_stock max_stock lead_time_days safety_stock_days =
     (if velocity \<le> 0 then 0
      else
        let total_days = lead_time_days + safety_stock_days;
            target_stock = fl (velocity * float_of_int total_days);
            reorder_quantity = fl (target_stock - float_of_int current_stock);
            reorder_quantity' =
              (if of_int max_stock < fl (float_of_int current_stock + reorder_quantity)
               then PyInt (max_stock - current_stock)
               else PyFloat reorder_quantity);
            reorder_quantity'' =
              (if 0 < num_value reorder_quantity' then
                 (if num_value reorder_quantity' \<le> 20
                  then num_mul (num_floordiv (num_add reorder_quantity' 4) 5) 5
                  else num_mul (num_floordiv (num_add reorder_quantity' 9) 10) 10)
               else reorder_quantity')
        in max 0 (num_int reorder_quantity''))"

section \<open>Alert models\<close>

datatype AlertType = LOW_STOCK | CRITICAL_STOCK | OUT_OF_STOCK | REORDER_SUGGESTED | VELOCITY_ANOMALY

datatype AlertSeverity = INFO | WARNING | CRITICAL

text \<open>
  The message and the suggested action of an alert are f-strings. They are kept as the
  sequence of their pieces, the literal text and the formatted values, without
  rendering the values to characters.
\<close>

datatype fpiece =
    Lit string          \<comment> \<open>literal text\<close>
  | FmtStr string       \<comment> \<open>\<^verbatim>\<open>{s}\<close> for a string\<close>
  | FmtInt int          \<comment> \<open>\<^verbatim>\<open>{i}\<close> for an int\<close>
  | FmtFloat1 real      \<comment> \<open>\<^verbatim>\<open>{x:.1f}\<close>\<close>

record AlertCreate =
  product_id :: string
  location_id :: string
  alert_type :: AlertType
  severity :: AlertSeverity
  message :: "fpiece list"
  current_stock :: int
  suggested_action :: "fpiece list option"

section \<open>MonitorService\<close>

text \<open>
  The service holds the two thresholds read from the settings (ints, by default 20 and
  5). What the point-of-sale service returns (inventory counts, catalog items, sales
  history) is an argument of \<open>check_stock_levels\<close>.
\<close>

record MonitorService =
  low_threshold :: int
  critical_threshold :: int

record inventory_count =
  catalog_object_id :: string
  location_id :: string
  quantity :: real
  calculated_at :: string

record catalog_item =
  item_id :: string   \<comment> \<open>the key \<^verbatim>\<open>"id"\<close>\<close>
  name :: string
  description :: string
  category_id :: string

text \<open>
  An entry of the list that \<open>check_stock_levels\<close> returns and \<open>generate_alerts\<close> reads.
  \<open>generate_alerts\<close> reads the last three keys with \<^verbatim>\<open>.get\<close>, so they may be missing
  (as in the repository's tests): \<open>None\<close>.
\<close>

record stock_level =
  product_id :: string
  product_name :: string
  location_id :: string
  current_stock :: int
  max_stock :: int
  stock_percentage :: real
  status :: string
  velocity :: "real option"
  days_until_stockout :: "int option"
  suggested_reorder_quantity :: "int option"

subsection \<open>_determine_status\<close>

definition determine_status :: "MonitorService \<Rightarrow> real \<Rightarrow> int \<Rightarrow> string" where
  "determine_status self pct cur =
     (if cur = 0 then ''out_of_stock''
      else if pct \<le> of_int (critical_threshold self) then ''critical''
      else if pct \<le> of_int (low_threshold self) then ''low''
      else ''healthy'')"

subsection \<open>check_stock_levels\<close>

definition true_div :: "int \<Rightarrow> int \<Rightarrow> py_error + real" where
  \<comment> \<open>\<^verbatim>\<open>a / b\<close> on two ints: the quotient rounded once; ZeroDivisionError for \<open>b = 0\<close>,
      OverflowError for a quotient beyond the float range\<close>
  "true_div a b =
     (if b = 0 then Inl ZeroDivisionError
      else if overflows (fl (of_int a / of_int b)) then Inl OverflowError
      else Inr (fl (of_int a / of_int b)))"

fun check_stock_loop ::
  "MonitorService \<Rightarrow> string \<Rightarrow> catalog_item list \<Rightarrow> order list \<Rightarrow>
   inventory_count list \<Rightarrow> stock_level list \<Rightarrow> py_error + stock_level list" where
  "check_stock_loop self loc catalog sales_history [] results = Inr results"
| "check_stock_loop self loc catalog sales_history (inv_item # inventory) results =
     (case find (\<lambda>c. item_id c = inventory_count.catalog_object_id inv_item) catalog of
        None \<Rightarrow> check_stock_loop self loc catalog sales_history inventory results
      | Some cat \<Rightarrow>
          let vel = calculate_velocity (inventory_count.catalog_object_id inv_item) sales_history 30;
              cur = py_int (inventory_count.quantity inv_item);
              mx = 100
          in (case true_div cur mx of
               Inl e \<Rightarrow> Inl e
             | Inr q \<Rightarrow>
                 let pct = fl (q * float_of_int 100);
                     st = determine_status self pct cur
                 in (case (if 0 < vel then calculate_days_until_stockout cur vel else Inr None) of
                      Inl e \<Rightarrow> Inl e
                    | Inr days \<Rightarrow>
                        let suggested_reorder = calculate_reorder_quantity vel cur mx 7 7
                        in check_stock_loop self loc catalog sales_history inventory
                             (results @
                              [\<lparr>product_id = inventory_count.catalog_object_id inv_item,
                                product_name = name cat,
                                location_id = loc,
                                current_stock = cur,
                                max_stock = mx,
                                stock_percentage = pct,
                                status = st,
                                velocity = Some vel,
                                days_until_stockout = days,
                                suggested_reorder_quantity = Some suggested_reorder\<rparr>]))))"

definition check_stock_levels ::
  "MonitorService \<Rightarrow> string \<Rightarrow> inventory_count list \<Rightarrow> catalog_item list \<Rightarrow> order list \<Rightarrow>
   py_error + stock_level list" where
  "check_stock_levels self loc inventory catalog sales_history =
     check_stock_loop self loc catalog sales_history inventory []"

subsection \<open>generate_alerts\<close>

definition reorder_condition :: "stock_level \<Rightarrow> bool" where
  \<comment> \<open>\<^verbatim>\<open>days_until_stockout and days_until_stockout <= 7 and
      stock.get("suggested_reorder_quantity", 0) > 0\<close>: \<open>None\<close> and \<open>0\<close> are both falsy\<close>
  "reorder_condition stock =
     (case days_until_stockout stock of
        None \<Rightarrow> False
      | Some d \<Rightarrow>
          d \<noteq> 0 \<and> d \<le> 7 \<and>
          (case suggested_reorder_quantity stock of None \<Rightarrow> (0::int) | Some q \<Rightarrow> q) > 0)"

definition alert_step :: "MonitorService \<Rightarrow> AlertCreate list \<Rightarrow> stock_level \<Rightarrow> AlertCreate list" where
  \<comment> \<open>one pass of the loop body over \<^verbatim>\<open>alerts\<close>; the body also reads
      \<^verbatim>\<open>stock.get("velocity", 0)\<close> and never uses it\<close>
  "alert_step self alerts stock =
     (let cur = stock_level.current_stock stock;
          pct = stock_percentage stock;
          days = days_until_stockout stock
      in
      if cur = 0 then
        alerts @
        [\<lparr>AlertCreate.product_id = stock_level.product_id stock,
          AlertCreate.location_id = stock_level.location_id stock,
          alert_type = OUT_OF_STOCK,
          severity = CRITICAL,
          message = [FmtStr (product_name stock), Lit '' is OUT OF STOCK''],
          AlertCreate.current_stock = cur,
          suggested_action =
            Some [Lit ''URGENT: Reorder '',
                  (case suggested_reorder_quantity stock of
                     None \<Rightarrow> FmtStr ''immediately'' | Some q \<Rightarrow> FmtInt q),
                  Lit '' units immediately'']\<rparr>]
      else if pct \<le> of_int (critical_threshold self) then
        alerts @
        [\<lparr>AlertCreate.product_id = stock_level.product_id stock,
          AlertCreate.location_id = stock_level.location_id stock,
          alert_type = CRITICAL_STOCK,
          severity = CRITICAL,
          message = [FmtStr (product_name stock), Lit '' is at CRITICAL stock level ('',
                     FmtInt cur, Lit '' units, '', FmtFloat1 pct, Lit ''%)''],
          AlertCreate.current_stock = cur,
          suggested_action =
            Some [Lit ''Reorder '',
                  (case suggested_reorder_quantity stock of
                     None \<Rightarrow> FmtStr ''ASAP'' | Some q \<Rightarrow> FmtInt q),
                  Lit '' units immediately'']\<rparr>]
      else if pct \<le> of_int (low_threshold self) then
        alerts @
        [\<lparr>AlertCreate.product_id = stock_level.product_id stock,
          AlertCreate.location_id = stock_level.location_id stock,
          alert_type = LOW_STOCK,
          severity = WARNING,
          message = [FmtStr (product_name stock), Lit '' is at LOW stock level ('',
                     FmtInt cur, Lit '' units, '', FmtFloat1 pct, Lit ''%)''],
          AlertCreate.current_stock = cur,
          suggested_action =
            Some [Lit ''Consider reordering '',
                  (case suggested_reorder_quantity stock of
                     None \<Rightarrow> FmtStr ''soon'' | Some q \<Rightarrow> FmtInt q),
                  Lit '' units'']\<rparr>]
      else if reorder_condition stock then
        alerts @
        [\<lparr>AlertCreate.product_id = stock_level.product_id stock,
          AlertCreate.location_id = stock_level.location_id stock,
          alert_type = REORDER_SUGGESTED,
          severity = INFO,
          message = [FmtStr (product_name stock), Lit '' will run out in '',
                     FmtInt (the (days_until_stockout stock)),
                     Lit '' days at current velocity''],
          AlertCreate.current_stock = cur,
          suggested_action =
            Some [Lit ''Reorder '', FmtInt (the (suggested_reorder_quantity stock)),
                  Lit '' units to maintain optimal stock'']\<rparr>]
      else alerts)"

definition generate_alerts :: "MonitorService \<Rightarrow> stock_level list \<Rightarrow> AlertCreate list" where
  "generate_alerts self stock_levels = foldl (alert_step self) [] stock_levels"

definition settings :: MonitorService where
  \<comment> \<open>the defaults of \<^verbatim>\<open>config.py\<close>\<close>
  "settings = \<lparr>low_threshold = 20, critical_threshold = 5\<rparr>"

section \<open>Reference notions and example inputs\<close>





text \<open>The four stock levels and the sales history of the repository's tests.\<close>

definition test_out_of_stock :: stock_level where
  "test_out_of_stock =
     \<lparr>product_id = ''test_001'', product_name = ''Test Product'', location_id = ''loc_001'',
      current_stock = 0, max_stock = 100, stock_percentage = 0, status = ''out_of_stock'',
      velocity = None, days_until_stockout = None, suggested_reorder_quantity = None\<rparr>"

definition test_critical :: stock_level where
  "test_critical =
     \<lparr>product_id = ''test_002'', product_name = ''Test Product 2'', location_id = ''loc_001'',
      current_stock = 3, max_stock = 100, stock_percentage = 3, status = ''critical'',
      velocity = None, days_until_stockout = None, suggested_reorder_quantity = None\<rparr>"

definition test_low :: stock_level where
  "test_low =
     \<lparr>product_id = ''test_003'', product_name = ''Test Product 3'', location_id = ''loc_001'',
      current_stock = 15, max_stock = 100, stock_percentage = 15, status = ''low'',
      velocity = None, days_until_stockout = None, suggested_reorder_quantity = None\<rparr>"

definition test_healthy :: stock_level where
  "test_healthy =
     \<lparr>product_id = ''test_004'', product_name = ''Test Product 4'', location_id = ''loc_001'',
      current_stock = 80, max_stock = 100, stock_percentage = 80, status = ''healthy'',
      velocity = None, days_until_stockout = None, suggested_reorder_quantity = None\<rparr>"


text \<open>
  A product with 30 units in stock that sold 1500 units in the 30-day window (50 a day):
  the stock level that \<open>check_stock_levels\<close> computes for it is \<open>urgent_stock\<close>.
\<close>

definition thirty_units :: inventory_count where
  "thirty_units =
     \<lparr>catalog_object_id = ''item_001'', location_id = ''demo_location'', quantity = 30,
      calculated_at = ''2024-01-01T00:00:00''\<rparr>"

definition coffee_beans :: catalog_item where
  "coffee_beans =
     \<lparr>item_id = ''item_001'', name = ''Premium Coffee Beans'',
      description = ''Organic whole bean coffee'', category_id = ''cat_beverages''\<rparr>"

definition bulk_order :: order where
  "bulk_order =
     \<lparr>order_id = ''order_1'', created_at = ''2024-01-01T00:00:00'',
      line_items = [\<lparr>line_item.catalog_object_id = Some ''item_001'', quantity = Quantity 1500\<rparr>]\<rparr>"

definition urgent_stock :: stock_level where
  "urgent_stock =
     \<lparr>product_id = ''item_001'', product_name = ''Premium Coffee Beans'',
      location_id = ''demo_location'', current_stock = 30, max_stock = 100,
      stock_percentage = 30, status = ''healthy'', velocity = Some 50,
      days_until_stockout = Some 0, suggested_reorder_quantity = Some 70\<rparr>"

text \<open>A product with 7 units in stock and no sales, and its stock level.\<close>

definition seven_units :: inventory_count where
  "seven_units =
     \<lparr>catalog_object_id = ''item_004'', location_id = ''demo_location'', quantity = 7,
      calculated_at = ''2024-01-01T00:00:00''\<rparr>"

definition vanilla_syrup :: catalog_item where
  "vanilla_syrup =
     \<lparr>item_id = ''item_004'', name = ''Vanilla Syrup'',
      description = ''Flavoring syrup for beverages'', category_id = ''cat_ingredients''\<rparr>"

definition seven_units_level :: stock_level where
  "seven_units_level =
     \<lparr>product_id = ''item_004'', product_name = ''Vanilla Syrup'',
      location_id = ''demo_location'', current_stock = 7, max_stock = 100,
      stock_percentage = 7 + 1 / 2 ^ 50, status = ''low'', velocity = Some 0,
      days_until_stockout = None, suggested_reorder_quantity = Some 0\<rparr>"

section \<open>Facts about the number model\<close>

lemma rne_nonneg: "0 \<le> x \<Longrightarrow> 0 \<le> rne x"
  by (auto simp: rne_def Let_def)

lemma rne_of_int: "rne (of_int n) = n"
  by (simp add: rne_def)

lemma fl_nonneg: "0 \<le> x \<Longrightarrow> 0 \<le> fl x"
  by (auto simp: fl_def Let_def intro!: mult_nonneg_nonneg rne_nonneg)

lemma fl_zero: "fl 0 = 0"
  by (simp add: fl_def)

lemma py_round_zero: "py_round 0 n = 0"
  using rne_of_int [of 0] by (simp add: py_round_def fl_zero)

text \<open>
  The exponent that \<open>fl\<close> rounds at is the binary exponent of its argument, so the
  result has 53 significant bits.
\<close>

lemma powi_nat: "0 \<le> e \<Longrightarrow> (2::real) powi e = 2 ^ nat e"
  by (simp add: power_int_def)

lemma powi_neg: "0 \<le> b \<Longrightarrow> (2::real) powi (- b) = 1 / 2 ^ nat b"
  by (simp add: power_int_def field_simps)

lemma float_exponent_bounds:
  assumes "x \<noteq> 0"
  shows "2 powi float_exponent x \<le> \<bar>x\<bar> \<and> \<bar>x\<bar> < 2 powi (float_exponent x + 1)"
proof (cases "1 \<le> \<bar>x\<bar>")
  case True
  define n where "n = \<lfloor>\<bar>x\<bar>\<rfloor>"
  have n1: "1 \<le> n" using True by (simp add: n_def le_floor_iff)
  have e: "float_exponent x = bitlen n - 1"
    using True by (simp add: float_exponent_def n_def)
  from n1 have b1: "1 \<le> bitlen n" by (auto simp: bitlen_alt_def)
  from bitlen_bounds [of n] n1
  have lo: "2 ^ nat (bitlen n - 1) \<le> n" and hi: "n < 2 ^ nat (bitlen n)" by auto
  have p1: "(2::real) powi (bitlen n - 1) = 2 ^ nat (bitlen n - 1)"
    using b1 by (simp add: powi_nat)
  have p2: "(2::real) powi (bitlen n - 1 + 1) = 2 ^ nat (bitlen n)"
    using b1 by (simp add: powi_nat)
  have r1: "real_of_int n \<le> \<bar>x\<bar>" by (simp add: n_def)
  have r2: "(2::real) ^ nat (bitlen n - 1) \<le> real_of_int n"
    using lo by (metis of_int_le_iff of_int_numeral of_int_power)
  have 1: "2 powi (bitlen n - 1) \<le> \<bar>x\<bar>"
    unfolding p1 by (rule order_trans [OF r2 r1])
  have r3: "\<bar>x\<bar> < real_of_int (n + 1)" unfolding n_def by linarith
  have "n + 1 \<le> 2 ^ nat (bitlen n)" using hi by simp
  then have r4: "real_of_int (n + 1) \<le> 2 ^ nat (bitlen n)"
    by (metis of_int_le_iff of_int_numeral of_int_power)
  have 2: "\<bar>x\<bar> < 2 powi (bitlen n - 1 + 1)"
    unfolding p2 by (rule less_le_trans [OF r3 r4])
  from 1 2 e show ?thesis by simp
next
  case False
  define a where "a = \<bar>x\<bar>"
  have a0: "0 < a" and a1: "a < 1" using assms False by (simp_all add: a_def)
  define k where "k = \<lceil>1 / a\<rceil> - 1"
  have "1 < 1 / a" using a0 a1 by simp
  then have k1: "1 \<le> k" unfolding k_def by linarith
  have klt: "real_of_int k < 1 / a" unfolding k_def by linarith
  have kge: "1 / a \<le> real_of_int (k + 1)" unfolding k_def by simp
  have e: "float_exponent x = - bitlen k"
    using False by (simp add: float_exponent_def k_def a_def)
  from k1 have b1: "1 \<le> bitlen k" by (auto simp: bitlen_alt_def)
  from bitlen_bounds [of k] k1
  have lo: "2 ^ nat (bitlen k - 1) \<le> k" and hi: "k < 2 ^ nat (bitlen k)" by auto
  have "k + 1 \<le> 2 ^ nat (bitlen k)" using hi by simp
  then have "real_of_int (k + 1) \<le> 2 ^ nat (bitlen k)"
    by (metis of_int_le_iff of_int_numeral of_int_power)
  with kge have "1 / a \<le> 2 ^ nat (bitlen k)" by (rule order_trans)
  then have "1 / 2 ^ nat (bitlen k) \<le> a"
    using a0 by (simp add: field_simps)
  then have 1: "2 powi (- bitlen k) \<le> a"
    using b1 by (simp add: powi_neg)
  have "(2::real) ^ nat (bitlen k - 1) \<le> real_of_int k"
    using lo by (metis of_int_le_iff of_int_numeral of_int_power)
  from this klt have "(2::real) ^ nat (bitlen k - 1) < 1 / a" by (rule le_less_trans)
  then have "a < 1 / 2 ^ nat (bitlen k - 1)"
    using a0 by (simp add: field_simps)
  moreover have "(2::real) powi (- bitlen k + 1) = 1 / 2 ^ nat (bitlen k - 1)"
    using b1 powi_neg [of "bitlen k - 1"] by simp
  ultimately have 2: "a < 2 powi (- bitlen k + 1)" by simp
  from 1 2 e show ?thesis by (simp add: a_def)
qed

text \<open>
  Rounding keeps a magnitude between the same powers of two, so a bound on the exact
  result decides whether the rounded one is still a float or the infinity.
\<close>

lemma rne_ge: "of_int n \<le> y \<Longrightarrow> n \<le> rne y"
proof -
  assume "of_int n \<le> y"
  then have "n \<le> \<lfloor>y\<rfloor>" by (simp add: le_floor_iff)
  then show ?thesis by (auto simp: rne_def Let_def)
qed

lemma rne_le: "y \<le> of_int n \<Longrightarrow> rne y \<le> n"
proof (cases "y = of_int n")
  case True
  then show ?thesis by (simp add: rne_def)
next
  case False
  assume "y \<le> of_int n"
  with False have "y < of_int n" by simp
  then have "\<lfloor>y\<rfloor> < n" by (simp add: floor_less_iff)
  then show ?thesis by (auto simp: rne_def Let_def)
qed

lemma fl_nonpos: "x \<le> 0 \<Longrightarrow> fl x \<le> 0"
  using rne_le [of _ 0]
  by (auto simp: fl_def Let_def mult_le_0_iff divide_le_0_iff)

lemma fl_abs_ge:
  assumes "2 powi k \<le> \<bar>x\<bar>"
  shows "2 powi k \<le> \<bar>fl x\<bar>"
proof -
  have pos: "(0::real) < 2 powi k" by simp
  with assms have "0 < \<bar>x\<bar>" by linarith
  then have x0: "x \<noteq> 0" by auto
  define e where "e = float_exponent x"
  define ulp :: real where "ulp = 2 powi (e - 52)"
  from float_exponent_bounds [OF x0]
  have lo: "2 powi e \<le> \<bar>x\<bar>" and hi: "\<bar>x\<bar> < 2 powi (e + 1)"
    by (simp_all add: e_def)
  have ke: "k \<le> e"
  proof (rule ccontr)
    assume "\<not> k \<le> e"
    then have "e + 1 \<le> k" by simp
    then have "(2::real) powi (e + 1) \<le> 2 powi k"
      by (intro power_int_increasing) simp_all
    with assms hi show False by linarith
  qed
  have ulp0: "0 < ulp" by (simp add: ulp_def)
  have split: "(2::real) powi e = 2 ^ 52 * ulp"
    using power_int_add [of "2::real" 52 "e - 52"] by (simp add: ulp_def)
  have fl_eq: "fl x = of_int (rne (x / ulp)) * ulp"
    using x0 by (simp add: fl_def Let_def ulp_def e_def)
  have "2 powi e \<le> \<bar>fl x\<bar>"
  proof (cases "0 < x")
    case True
    with lo have "2 ^ 52 * ulp \<le> x" by (simp add: split)
    then have "of_int (2 ^ 52) \<le> x / ulp"
      using ulp0 by (simp add: field_simps)
    then have "2 ^ 52 \<le> rne (x / ulp)" by (rule rne_ge)
    then have "(2::real) ^ 52 \<le> of_int (rne (x / ulp))"
      by (metis of_int_le_iff of_int_numeral of_int_power)
    then have "2 ^ 52 * ulp \<le> of_int (rne (x / ulp)) * ulp"
      using ulp0 by simp
    then show ?thesis by (simp add: fl_eq split)
  next
    case False
    with x0 have neg: "x < 0" by simp
    with lo have "x \<le> - (2 ^ 52 * ulp)" by (simp add: split)
    then have "x / ulp \<le> of_int (- (2 ^ 52))"
      using ulp0 by (simp add: field_simps)
    then have "rne (x / ulp) \<le> - (2 ^ 52)" by (rule rne_le)
    then have "of_int (rne (x / ulp)) \<le> - ((2::real) ^ 52)"
      by (metis of_int_le_iff of_int_minus of_int_numeral of_int_power)
    then have "of_int (rne (x / ulp)) * ulp \<le> - (2 ^ 52) * ulp"
      using ulp0 by (intro mult_right_mono) simp_all
    then show ?thesis by (simp add: fl_eq split)
  qed
  moreover have "(2::real) powi k \<le> 2 powi e"
    using ke by (intro power_int_increasing) simp_all
  ultimately show ?thesis by linarith
qed

lemma fl_abs_le:
  assumes "\<bar>x\<bar> \<le> 2 powi k"
  shows "\<bar>fl x\<bar> \<le> 2 powi k"
proof (cases "x = 0")
  case True
  then show ?thesis by (simp add: fl_zero)
next
  case x0: False
  define e where "e = float_exponent x"
  define ulp :: real where "ulp = 2 powi (e - 52)"
  from float_exponent_bounds [OF x0]
  have lo: "2 powi e \<le> \<bar>x\<bar>"
    by (simp_all add: e_def)
  have ek: "e \<le> k"
  proof (rule ccontr)
    assume "\<not> e \<le> k"
    then have "k < e" by simp
    then have "(2::real) powi k < 2 powi e"
      by (intro power_int_strict_increasing) simp_all
    with assms lo show False by linarith
  qed
  define N :: int where "N = 2 ^ nat (k - e + 52)"
  have ulp0: "0 < ulp" by (simp add: ulp_def)
  have "(2::real) powi (k - e + 52) = 2 ^ nat (k - e + 52)"
    using ek by (simp add: power_int_nonneg_exp)
  then have N_real: "real_of_int N = 2 powi (k - e + 52)"
    by (simp add: N_def)
  have split: "(2::real) powi k = of_int N * ulp"
    using power_int_add [of "2::real" "k - e + 52" "e - 52"] by (simp add: ulp_def N_real)
  have fl_eq: "fl x = of_int (rne (x / ulp)) * ulp"
    using x0 by (simp add: fl_def Let_def ulp_def e_def)
  show ?thesis
  proof (cases "0 < x")
    case True
    with assms have "x \<le> of_int N * ulp" by (simp add: split)
    then have "x / ulp \<le> of_int N"
      using ulp0 by (simp add: field_simps)
    then have "rne (x / ulp) \<le> N" by (rule rne_le)
    then have "of_int (rne (x / ulp)) * ulp \<le> of_int N * ulp"
      using ulp0 by simp
    moreover have "0 \<le> fl x" using True by (simp add: fl_nonneg)
    ultimately show ?thesis by (simp add: fl_eq split)
  next
    case False
    with x0 have neg: "x < 0" by simp
    with assms have "- (of_int N * ulp) \<le> x" by (simp add: split)
    then have "of_int (- N) \<le> x / ulp"
      using ulp0 by (simp add: field_simps)
    then have "- N \<le> rne (x / ulp)" by (rule rne_ge)
    then have "- real_of_int N \<le> of_int (rne (x / ulp))"
      by (metis of_int_le_iff of_int_minus)
    then have "- real_of_int N * ulp \<le> of_int (rne (x / ulp)) * ulp"
      using ulp0 by (intro mult_right_mono) simp_all
    moreover have "fl x \<le> 0" using neg by (simp add: fl_nonpos)
    ultimately show ?thesis by (simp add: fl_eq split)
  qed
qed

lemma not_overflows: "\<bar>x\<bar> \<le> 2 powi k \<Longrightarrow> k < 1024 \<Longrightarrow> \<not> overflows (fl x)"
proof -
  assume "\<bar>x\<bar> \<le> 2 powi k" and k: "k < 1024"
  then have "\<bar>fl x\<bar> \<le> 2 powi k" by (simp add: fl_abs_le)
  moreover have "(2::real) powi k < 2 powi 1024"
    using k by (intro power_int_strict_increasing) simp_all
  ultimately show ?thesis by (simp add: overflows_def)
qed

lemma overflows_fl: "2 ^ 1024 \<le> \<bar>x\<bar> \<Longrightarrow> overflows (fl x)"
  using fl_abs_ge [of 1024 x] by (simp add: overflows_def)

text \<open>Rounding evaluates on numerals by unfolding.\<close>

lemmas fl_eval =
  fl_def rne_def float_exponent_def bitlen_def compute_floorlog Let_def power_int_minus

lemma fl_values:
  "fl 1 = 1" "fl 2 = 2" "fl 3 = 3" "fl 4 = 4" "fl 5 = 5" "fl 6 = 6" "fl 7 = 7" "fl 8 = 8"
  "fl 9 = 9" "fl 10 = 10" "fl 14 = 14" "fl 20 = 20" "fl 30 = 30" "fl 43 = 43" "fl 50 = 50"
  "fl 60 = 60" "fl 69 = 69" "fl 70 = 70" "fl 97 = 97" "fl 100 = 100" "fl 140 = 140"
  "fl 670 = 670" "fl 700 = 700" "fl 1000 = 1000" "fl 1500 = 1500"
  "fl (7 / 8) = 7 / 8" "fl (39 / 8) = 39 / 8"
  by (simp_all add: fl_eval)

text \<open>
  \<open>7 / 100\<close> and \<open>3 / 5\<close> are no binary fractions, so their floats are inexact:
  \<^verbatim>\<open>7 / 100 * 100\<close> is \<^verbatim>\<open>7.000000000000001\<close>, while \<^verbatim>\<open>30 / 100 * 100\<close> is \<^verbatim>\<open>30.0\<close>.
\<close>

lemma fl_inexact:
  "fl (fl (7 / 100) * 100) = 7 + 1 / 2 ^ 50"
  "fl (fl (3 / 10) * 100) = 30"
  "fl (3 / 5) = 5404319552844595 / 2 ^ 53"
  by (simp_all add: fl_eval)

lemma rne_values: "rne 0 = 0" "rne 400 = 400" "rne 5000 = 5000"
  by (simp_all add: rne_def)

lemma float_floordiv_values:
  "float_floordiv (39 / 8) 5 = 0" "float_floordiv 69 10 = 6"
  by (simp_all add: float_floordiv_def Let_def py_int_def fl_values fl_zero)

section \<open>The forecaster\<close>

lemma calculate_reorder_quantity_test:
  \<comment> \<open>the assertion of \<^verbatim>\<open>test_calculate_reorder_quantity\<close>\<close>
  "calculate_reorder_quantity 5 10 100 7 7 = 60"
  by (simp add: calculate_reorder_quantity_def Let_def float_of_int_def fl_values
      float_floordiv_values py_int_def)

text \<open>
  Claim C1: for every valid input (\<open>0 \<le> current_stock \<le> max_stock\<close>, non-negative lead
  time and safety days) the returned quantity plus \<open>current_stock\<close> never exceeds
  \<open>max_stock\<close>. The code clamps the quantity to \<open>max_stock - current_stock\<close> and rounds it
  up afterwards: with 97 of 100 units in stock and a velocity of 10 a day the clamped
  quantity is 3, the result is 5, and 97 + 5 exceeds 100.
\<close>

theorem reorder_exceeds_max_stock:
  "calculate_reorder_quantity 10 97 100 7 7 = 5 \<and>
   \<not> calculate_reorder_quantity 10 97 100 7 7 + 97 \<le> 100"
  by (simp add: calculate_reorder_quantity_def Let_def float_of_int_def fl_values py_int_def)

text \<open>
  Claim C2: for a velocity above 0 and a positive clamped quantity \<open>q\<close>, the result is
  the least multiple of 5 (for \<open>q \<le> 20\<close>) or of 10 (for \<open>q > 20\<close>) that is at least \<open>q\<close>, so
  never below \<open>q\<close>. The code adds 4 (or 9) and floor-divides, which rounds up on ints
  only: for the velocity \<open>1 / 16\<close> and an empty stock the quantity is \<open>q = 7 / 8\<close>, and the
  result is 0 instead of 5.
\<close>

theorem reorder_rounds_down:
  "calculate_reorder_quantity (1 / 16) 0 100 7 7 = 0 \<and>
   (0::real) < min (1 / 16 * (7 + 7) - 0) (100 - 0)"
  by (simp add: calculate_reorder_quantity_def Let_def float_of_int_def fl_values fl_zero
      float_floordiv_values py_int_def)





text \<open>
  Claim C8: for a stock of 0 or more and every velocity, \<open>calculate_days_until_stockout\<close>
  returns \<open>None\<close> exactly when the velocity is 0 or less, and otherwise the floor of
  \<^verbatim>\<open>current_stock / velocity\<close>. Not for every velocity: 1000 units at the velocity
  \<open>2\<^sup>-\<^sup>1\<^sup>0\<^sup>2\<^sup>0\<close> (the float \<^verbatim>\<open>2.0 ** -1020\<close>, about \<^verbatim>\<open>8.9e-308\<close>) give the quotient \<^verbatim>\<open>inf\<close>,
  and \<^verbatim>\<open>int(inf)\<close> raises OverflowError; so does \<^verbatim>\<open>1000 / 1e-306\<close>.
\<close>

theorem days_until_stockout_overflow:
  "calculate_days_until_stockout 1000 (1 / 2 ^ 1020) = Inl OverflowError"
proof -
  have a: "\<not> overflows (fl 1000)"
    by (simp add: fl_values overflows_def)
  have "(2::real) ^ 1024 \<le> \<bar>1000 * 2 ^ 1020\<bar>" by simp
  then have b: "overflows (fl (1000 * 2 ^ 1020))" by (rule overflows_fl)
  show ?thesis
    using a b by (simp add: calculate_days_until_stockout_def float_of_int_def fl_values)
qed

text \<open>
  Claim C8, as the code has it: for a stock of 0 or more the result is \<open>None\<close> exactly
  when the velocity is 0 or less. For a velocity above 0 it is the floor of the quotient
  \<^verbatim>\<open>current_stock / velocity\<close> (the float that Python's division yields; truncation
  towards zero and floor agree because the quotient is not negative), provided the
  stock converts to a float and the quotient is finite; otherwise the call raises
  OverflowError.
\<close>

theorem days_until_stockout_floor:
  "0 \<le> cs \<Longrightarrow>
   (calculate_days_until_stockout cs v = Inr None \<longleftrightarrow> v \<le> 0) \<and>
   (0 < v \<and> \<not> overflows (float_of_int cs) \<and> \<not> overflows (fl (float_of_int cs / v)) \<longrightarrow>
      calculate_days_until_stockout cs v = Inr (Some \<lfloor>fl (float_of_int cs / v)\<rfloor>)) \<and>
   (0 < v \<and> (overflows (float_of_int cs) \<or> overflows (fl (float_of_int cs / v))) \<longrightarrow>
      calculate_days_until_stockout cs v = Inl OverflowError)"
proof -
  assume cs: "0 \<le> cs"
  have "0 \<le> float_of_int cs"
    using cs by (simp add: float_of_int_def fl_nonneg)
  then have "0 < v \<Longrightarrow> 0 \<le> fl (float_of_int cs / v)"
    by (simp add: fl_nonneg)
  then show ?thesis
    by (auto simp: calculate_days_until_stockout_def py_int_def Let_def)
qed

text \<open>
  Claim C8, as the code has it, at the stock 20 and the velocity 5 (4 days) and at the
  stock 1000 and the velocity \<open>2\<^sup>-\<^sup>1\<^sup>0\<^sup>2\<^sup>0\<close> (OverflowError).
\<close>

theorem days_until_stockout_floor_witness:
  "(0::int) \<le> 20 \<and> (0::real) < 5 \<and> \<not> overflows (float_of_int 20) \<and>
   \<not> overflows (fl (float_of_int 20 / 5)) \<and>
   calculate_days_until_stockout 20 5 = Inr (Some 4) \<and>
   overflows (fl (float_of_int 1000 / (1 / 2 ^ 1020))) \<and>
   calculate_days_until_stockout 1000 (1 / 2 ^ 1020) = Inl OverflowError"
proof -
  have h: "(0::int) \<le> 20" and h': "(0::int) \<le> 1000" by simp_all
  have a: "\<not> overflows (float_of_int 20)" "\<not> overflows (fl (float_of_int 20 / 5))"
    by (simp_all add: float_of_int_def fl_values overflows_def)
  have f: "\<lfloor>fl (float_of_int 20 / 5)\<rfloor> = 4"
    by (simp add: float_of_int_def fl_values)
  have "(2::real) ^ 1024 \<le> \<bar>1000 * 2 ^ 1020\<bar>" by simp
  then have "overflows (fl (1000 * 2 ^ 1020))" by (rule overflows_fl)
  then have b: "overflows (fl (float_of_int 1000 / (1 / 2 ^ 1020)))"
    by (simp add: float_of_int_def fl_values)
  from days_until_stockout_floor [OF h, of 5] days_until_stockout_floor [OF h', of "1 / 2 ^ 1020"]
    a f b
  show ?thesis by simp
qed

section \<open>The monitor\<close>

subsection \<open>Status tiers\<close>

text \<open>
  Claim C5: the status is a function of the stock, the percentage and the thresholds
  alone, and with the critical threshold below the low one it is \<open>out_of_stock\<close>
  exactly when the stock is 0 (whatever the percentage); otherwise \<open>critical\<close> exactly
  when the percentage is at most the critical threshold; otherwise \<open>low\<close> exactly when
  it is at most the low threshold; otherwise \<open>healthy\<close>.
\<close>

theorem determine_status_tiers:
  "critical_threshold self < low_threshold self \<Longrightarrow>
   (determine_status self pct cur = ''out_of_stock'' \<longleftrightarrow> cur = 0) \<and>
   (cur \<noteq> 0 \<longrightarrow>
      (determine_status self pct cur = ''critical'' \<longleftrightarrow>
       pct \<le> of_int (critical_threshold self))) \<and>
   (cur \<noteq> 0 \<and> \<not> pct \<le> of_int (critical_threshold self) \<longrightarrow>
      (determine_status self pct cur = ''low'' \<longleftrightarrow> pct \<le> of_int (low_threshold self))) \<and>
   (determine_status self pct cur = ''healthy'' \<longleftrightarrow>
      cur \<noteq> 0 \<and> \<not> pct \<le> of_int (critical_threshold self) \<and>
      \<not> pct \<le> of_int (low_threshold self))"
  by (simp add: determine_status_def)

text \<open>
  Claim C5, at the default thresholds 5 and 20 and the four calls of the repository's
  test \<^verbatim>\<open>test_status_determination\<close>.
\<close>

theorem determine_status_tiers_witness:
  "critical_threshold settings < low_threshold settings \<and>
   determine_status settings 0 0 = ''out_of_stock'' \<and>
   determine_status settings 3 3 = ''critical'' \<and>
   determine_status settings 15 15 = ''low'' \<and>
   determine_status settings 80 80 = ''healthy''"
proof -
  have h: "critical_threshold settings < low_threshold settings"
    by (simp add: settings_def)
  show ?thesis
    using h determine_status_tiers [OF h, of 0 0] determine_status_tiers [OF h, of 3 3]
      determine_status_tiers [OF h, of 15 15] determine_status_tiers [OF h, of 80 80]
    by (simp add: settings_def)
qed

subsection \<open>check_stock_levels\<close>

lemma velocity_no_sales: "calculate_velocity pid [] 30 = 0"
  by (simp add: calculate_velocity_def py_round_zero fl_zero)

lemma py_round_positive:
  assumes "0 < py_round x 2"
  shows "2 powi (- 7) \<le> py_round x 2"
proof -
  define n where "n = rne (x * 10 ^ 2)"
  have eq: "py_round x 2 = fl (of_int n / 10 ^ 2)"
    by (simp add: py_round_def n_def)
  have "1 \<le> n"
  proof (rule ccontr)
    assume "\<not> 1 \<le> n"
    then have "real_of_int n / 10 ^ 2 \<le> 0" by (simp add: divide_le_0_iff)
    then have "fl (of_int n / 10 ^ 2) \<le> 0" by (rule fl_nonpos)
    with assms eq show False by simp
  qed
  then have "(1::real) \<le> of_int n" by simp
  then have "(2::real) powi (- 7) \<le> \<bar>of_int n / 10 ^ 2\<bar>"
    by (simp add: power_int_minus field_simps)
  then have "2 powi (- 7) \<le> \<bar>fl (of_int n / 10 ^ 2)\<bar>" by (rule fl_abs_ge)
  with assms eq show ?thesis by simp
qed

lemma calculate_velocity_positive:
  assumes "0 < calculate_velocity pid h d"
  shows "2 powi (- 7) \<le> calculate_velocity pid h d"
proof (cases "count_orders pid h 0")
  case (Inl e)
  with assms show ?thesis by (simp add: calculate_velocity_def)
next
  case (Inr total)
  define v where "v = (if 0 < d then fl (total / float_of_int d) else 0)"
  have eq: "calculate_velocity pid h d = py_round v 2"
    using Inr by (simp add: calculate_velocity_def v_def)
  from assms show ?thesis
    unfolding eq by (rule py_round_positive)
qed

lemma py_int_abs: "\<bar>real_of_int (py_int q)\<bar> \<le> \<bar>q\<bar>"
  by (auto simp: py_int_def; linarith)

lemma true_div_100:
  "\<bar>real_of_int cur\<bar> \<le> 2 ^ 1000 \<Longrightarrow> true_div cur 100 = Inr (fl (of_int cur / 100))"
proof -
  assume "\<bar>real_of_int cur\<bar> \<le> 2 ^ 1000"
  then have "\<bar>real_of_int cur / 100\<bar> \<le> 2 powi 1000" by simp
  then have "\<not> overflows (fl (real_of_int cur / 100))"
    by (rule not_overflows) simp
  then show ?thesis by (simp add: true_div_def)
qed

lemma true_div_100_result:
  "true_div cur 100 = Inr q \<Longrightarrow> q = fl (of_int cur / 100)"
  by (simp add: true_div_def split: if_splits)

lemma days_in_range:
  assumes cur: "\<bar>real_of_int cur\<bar> \<le> 2 ^ 1000" and vel: "2 powi (- 7) \<le> vel"
  shows "\<exists>d. calculate_days_until_stockout cur vel = Inr d"
proof -
  have v0: "0 < vel" using vel zero_less_power_int [of "2::real" "- 7"] by linarith
  have "\<bar>real_of_int cur\<bar> \<le> 2 powi 1000" using cur by simp
  then have fc: "\<bar>float_of_int cur\<bar> \<le> 2 powi 1000"
    unfolding float_of_int_def by (rule fl_abs_le)
  have a: "\<not> overflows (float_of_int cur)"
    unfolding float_of_int_def using cur by (intro not_overflows [of _ 1000]) simp_all
  have "\<bar>float_of_int cur / vel\<bar> = \<bar>float_of_int cur\<bar> / vel"
    using v0 by simp
  also have "\<dots> \<le> 2 powi 1000 / vel"
    using fc v0 by (simp add: divide_right_mono)
  also have "\<dots> \<le> 2 powi 1000 / 2 powi (- 7)"
    using vel by (intro divide_left_mono) simp_all
  also have "\<dots> = 2 powi 1007"
    by (simp add: power_int_minus)
  finally have "\<not> overflows (fl (float_of_int cur / vel))"
    by (rule not_overflows) simp
  with a v0 show ?thesis
    by (simp add: calculate_days_until_stockout_def Let_def)
qed

lemma check_stock_loop_invariant:
  "check_stock_loop self loc cat hist items results = Inr out \<Longrightarrow>
   \<exists>new. out = results @ new \<and>
     (\<forall>s \<in> set new. max_stock s = 100 \<and>
        stock_percentage s = fl (fl (of_int (stock_level.current_stock s) / 100) * 100))"
proof (induction items arbitrary: results)
  case Nil
  then show ?case by simp
next
  case (Cons inv_item items)
  show ?case
  proof (cases "find (\<lambda>c. item_id c = inventory_count.catalog_object_id inv_item) cat")
    case None
    with Cons.prems Cons.IH [of results] show ?thesis by simp
  next
    case (Some c)
    let ?vel = "calculate_velocity (inventory_count.catalog_object_id inv_item) hist 30"
    let ?cur = "py_int (inventory_count.quantity inv_item)"
    let ?pct = "fl (fl (of_int ?cur / 100) * 100)"
    let ?days = "if 0 < ?vel then calculate_days_until_stockout ?cur ?vel else Inr None"
    from Cons.prems Some obtain q where q: "true_div ?cur 100 = Inr q"
      by (cases "true_div ?cur 100") (simp_all add: Let_def)
    then have qv: "q = fl (of_int ?cur / 100)" by (rule true_div_100_result)
    from Cons.prems Some q obtain d where d: "?days = Inr d"
      by (cases ?days) (simp_all add: Let_def)
    let ?s = "\<lparr>product_id = inventory_count.catalog_object_id inv_item,
               product_name = name c, location_id = loc, current_stock = ?cur,
               max_stock = 100, stock_percentage = ?pct,
               status = determine_status self ?pct ?cur, velocity = Some ?vel,
               days_until_stockout = d,
               suggested_reorder_quantity =
                 Some (calculate_reorder_quantity ?vel ?cur 100 7 7)\<rparr>"
    have step: "check_stock_loop self loc cat hist (inv_item # items) results =
                check_stock_loop self loc cat hist items (results @ [?s])"
      using Some q qv d by (simp add: Let_def float_of_int_def fl_values)
    with Cons.prems have "check_stock_loop self loc cat hist items (results @ [?s]) = Inr out"
      by simp
    from Cons.IH [OF this] obtain new where
      new: "out = (results @ [?s]) @ new"
      and rest: "\<forall>s \<in> set new. max_stock s = 100 \<and>
        stock_percentage s = fl (fl (of_int (stock_level.current_stock s) / 100) * 100)"
      by blast
    have "out = results @ (?s # new)" using new by simp
    moreover have "\<forall>s \<in> set (?s # new). max_stock s = 100 \<and>
        stock_percentage s = fl (fl (of_int (stock_level.current_stock s) / 100) * 100)"
      using rest by simp
    ultimately show ?thesis by blast
  qed
qed

lemma check_stock_loop_returns:
  "\<forall>i \<in> set items. \<bar>inventory_count.quantity i\<bar> \<le> 2 ^ 1000 \<Longrightarrow>
   \<exists>out. check_stock_loop self loc cat hist items results = Inr out"
proof (induction items arbitrary: results)
  case Nil
  show ?case by simp
next
  case (Cons inv_item items)
  then have rest: "\<forall>i \<in> set items. \<bar>inventory_count.quantity i\<bar> \<le> 2 ^ 1000"
    and here: "\<bar>inventory_count.quantity inv_item\<bar> \<le> 2 ^ 1000"
    by simp_all
  show ?case
  proof (cases "find (\<lambda>c. item_id c = inventory_count.catalog_object_id inv_item) cat")
    case None
    with Cons.IH [OF rest, of results] show ?thesis by simp
  next
    case (Some c)
    let ?vel = "calculate_velocity (inventory_count.catalog_object_id inv_item) hist 30"
    let ?cur = "py_int (inventory_count.quantity inv_item)"
    let ?days = "if 0 < ?vel then calculate_days_until_stockout ?cur ?vel else Inr None"
    have cur: "\<bar>real_of_int ?cur\<bar> \<le> 2 ^ 1000"
      using py_int_abs [of "inventory_count.quantity inv_item"] here by linarith
    have q: "true_div ?cur 100 = Inr (fl (of_int ?cur / 100))"
      using cur by (rule true_div_100)
    have "\<exists>d. ?days = Inr d"
    proof (cases "0 < ?vel")
      case True
      then have "2 powi (- 7) \<le> ?vel" by (rule calculate_velocity_positive)
      with cur True show ?thesis by (simp add: days_in_range)
    next
      case False
      then show ?thesis by simp
    qed
    then obtain d where d: "?days = Inr d" ..
    show ?thesis
      using Some q d Cons.IH [OF rest] by (simp add: Let_def)
  qed
qed

lemma seven_units_checked:
  "check_stock_levels settings ''demo_location'' [seven_units] [vanilla_syrup] [] =
     Inr [seven_units_level]"
  by (simp add: check_stock_levels_def seven_units_def vanilla_syrup_def seven_units_level_def
      velocity_no_sales true_div_100 py_int_def fl_inexact float_of_int_def fl_values
      determine_status_def settings_def calculate_reorder_quantity_def)

lemma urgent_stock_checked:
  "check_stock_levels settings ''demo_location'' [thirty_units] [coffee_beans] [bulk_order] =
     Inr [urgent_stock]"
proof -
  have vel: "calculate_velocity ''item_001'' [bulk_order] 30 = 50"
    by (simp add: calculate_velocity_def bulk_order_def float_of_int_def py_round_def
        fl_values fl_zero rne_values)
  have days: "calculate_days_until_stockout 30 50 = Inr (Some 0)"
    by (simp add: calculate_days_until_stockout_def float_of_int_def fl_values fl_inexact
        overflows_def py_int_def)
  have qty: "calculate_reorder_quantity 50 30 100 7 7 = 70"
    by (simp add: calculate_reorder_quantity_def Let_def float_of_int_def fl_values py_int_def)
  show ?thesis
    by (simp add: check_stock_levels_def thirty_units_def coffee_beans_def urgent_stock_def
        vel days qty true_div_100 py_int_def fl_inexact float_of_int_def fl_values
        determine_status_def settings_def)
qed

text \<open>
  Claim C10: every stock level that \<open>check_stock_levels\<close> returns has \<open>max_stock = 100\<close>,
  whatever the product, the location and the catalog, and so its percentage is
  numerically equal to its stock. The second half fails in floating point: for 7
  units, \<^verbatim>\<open>(7 / 100) * 100\<close> is \<^verbatim>\<open>7.000000000000001\<close>, that is \<open>7 + 2\<^sup>-\<^sup>5\<^sup>0\<close>.
\<close>

theorem seven_units_percentage:
  "check_stock_levels settings ''demo_location'' [seven_units] [vanilla_syrup] [] =
     Inr [seven_units_level] \<and>
   stock_percentage seven_units_level \<noteq> of_int (stock_level.current_stock seven_units_level)"
  using seven_units_checked by (simp add: seven_units_level_def)

text \<open>
  Claim C10, as the code has it: every stock level that \<open>check_stock_levels\<close> returns has
  \<open>max_stock = 100\<close>, and its percentage is the float \<^verbatim>\<open>(current_stock / 100) * 100\<close>, a
  function of the stock alone that is equal to the stock up to the rounding of the two
  operations. No input carries a capacity. The call returns whenever the inventory
  quantities are at most \<open>2\<^sup>1\<^sup>0\<^sup>0\<^sup>0\<close> in magnitude.
\<close>

theorem check_stock_levels_max_stock:
  "(check_stock_levels self loc items cat hist = Inr results \<longrightarrow>
      (\<forall>s \<in> set results. max_stock s = 100 \<and>
         stock_percentage s = fl (fl (of_int (stock_level.current_stock s) / 100) * 100))) \<and>
   ((\<forall>i \<in> set items. \<bar>inventory_count.quantity i\<bar> \<le> 2 ^ 1000) \<longrightarrow>
      (\<exists>out. check_stock_levels self loc items cat hist = Inr out))"
  using check_stock_loop_invariant [of self loc cat hist items "[]" results]
    check_stock_loop_returns [of items self loc cat hist "[]"]
  by (auto simp: check_stock_levels_def)

text \<open>Claim C10, as the code has it, at the product with 7 units.\<close>

theorem check_stock_levels_max_stock_witness:
  "check_stock_levels settings ''demo_location'' [seven_units] [vanilla_syrup] [] =
     Inr [seven_units_level] \<and>
   \<bar>inventory_count.quantity seven_units\<bar> \<le> 2 ^ 1000 \<and>
   max_stock seven_units_level = 100 \<and>
   stock_percentage seven_units_level = fl (fl (7 / 100) * 100)"
proof -
  have cur: "stock_level.current_stock seven_units_level = 7"
    by (simp add: seven_units_level_def)
  have small: "\<bar>inventory_count.quantity seven_units\<bar> \<le> 2 ^ 1000"
    by (simp add: seven_units_def)
  from check_stock_levels_max_stock
         [of settings "''demo_location''" "[seven_units]" "[vanilla_syrup]" "[]"
            "[seven_units_level]"]
    seven_units_checked cur small
  show ?thesis by simp
qed

subsection \<open>generate_alerts\<close>

lemma alert_step_append:
  "alert_step self alerts stock = alerts @ alert_step self [] stock"
  by (simp add: alert_step_def Let_def)

lemma generate_alerts_Cons:
  "generate_alerts self (s # stocks) = generate_alerts self [s] @ generate_alerts self stocks"
proof -
  have "foldl (alert_step self) acc stocks = acc @ foldl (alert_step self) [] stocks" for acc
  proof (induction stocks arbitrary: acc)
    case Nil
    show ?case by simp
  next
    case (Cons t ts)
    show ?case
      using Cons.IH [of "alert_step self acc t"] Cons.IH [of "alert_step self [] t"]
        alert_step_append [of self acc t]
      by simp
  qed
  from this [of "alert_step self [] s"] show ?thesis
    by (simp add: generate_alerts_def)
qed

lemma generate_alerts_concat:
  "generate_alerts self stocks = concat (map (\<lambda>s. generate_alerts self [s]) stocks)"
proof (induction stocks)
  case Nil
  show ?case by (simp add: generate_alerts_def)
next
  case (Cons s stocks)
  then show ?case
    using generate_alerts_Cons [of self s stocks] by simp
qed

lemma generate_alerts_single:
  "generate_alerts self [s] = alert_step self [] s"
  by (simp add: generate_alerts_def)

text \<open>
  Claim C4: \<open>generate_alerts\<close> treats every stock level on its own and emits at most one
  alert for it, chosen in strict priority: \<open>out_of_stock\<close> when the stock is 0, else
  \<open>critical_stock\<close> when the percentage is at most the critical threshold, else
  \<open>low_stock\<close> when it is at most the low threshold, else at most a \<open>reorder_suggested\<close>;
  and no alert for a stock level above both thresholds that has no stockout projection
  or one beyond 7 days.
\<close>

theorem generate_alerts_priority:
  "generate_alerts self stocks = concat (map (\<lambda>s. generate_alerts self [s]) stocks) \<and>
   length (generate_alerts self [s]) \<le> 1 \<and>
   (stock_level.current_stock s = 0 \<longrightarrow>
      map alert_type (generate_alerts self [s]) = [OUT_OF_STOCK]) \<and>
   (stock_level.current_stock s \<noteq> 0 \<and>
    stock_percentage s \<le> of_int (critical_threshold self) \<longrightarrow>
      map alert_type (generate_alerts self [s]) = [CRITICAL_STOCK]) \<and>
   (stock_level.current_stock s \<noteq> 0 \<and>
    \<not> stock_percentage s \<le> of_int (critical_threshold self) \<and>
    stock_percentage s \<le> of_int (low_threshold self) \<longrightarrow>
      map alert_type (generate_alerts self [s]) = [LOW_STOCK]) \<and>
   (stock_level.current_stock s \<noteq> 0 \<and>
    \<not> stock_percentage s \<le> of_int (critical_threshold self) \<and>
    \<not> stock_percentage s \<le> of_int (low_threshold self) \<longrightarrow>
      set (map alert_type (generate_alerts self [s])) \<subseteq> {REORDER_SUGGESTED}) \<and>
   (stock_level.current_stock s \<noteq> 0 \<and>
    \<not> stock_percentage s \<le> of_int (critical_threshold self) \<and>
    \<not> stock_percentage s \<le> of_int (low_threshold self) \<and>
    (days_until_stockout s = None \<or> (\<exists>d. days_until_stockout s = Some d \<and> 7 < d)) \<longrightarrow>
      generate_alerts self [s] = [])"
proof -
  let ?as = "generate_alerts self [s]"
  have eq: "?as = alert_step self [] s"
    by (rule generate_alerts_single)
  have c0: "generate_alerts self stocks = concat (map (\<lambda>s. generate_alerts self [s]) stocks)"
    by (rule generate_alerts_concat)
  have c1: "length ?as \<le> 1"
    unfolding eq by (simp add: alert_step_def Let_def)
  have c2: "stock_level.current_stock s = 0 \<longrightarrow> map alert_type ?as = [OUT_OF_STOCK]"
    unfolding eq by (simp add: alert_step_def Let_def)
  have c3: "stock_level.current_stock s \<noteq> 0 \<and>
      stock_percentage s \<le> of_int (critical_threshold self) \<longrightarrow>
      map alert_type ?as = [CRITICAL_STOCK]"
    unfolding eq by (simp add: alert_step_def Let_def)
  have c4: "stock_level.current_stock s \<noteq> 0 \<and>
      \<not> stock_percentage s \<le> of_int (critical_threshold self) \<and>
      stock_percentage s \<le> of_int (low_threshold self) \<longrightarrow>
      map alert_type ?as = [LOW_STOCK]"
    unfolding eq by (simp add: alert_step_def Let_def)
  have c5: "stock_level.current_stock s \<noteq> 0 \<and>
      \<not> stock_percentage s \<le> of_int (critical_threshold self) \<and>
      \<not> stock_percentage s \<le> of_int (low_threshold self) \<longrightarrow>
      set (map alert_type ?as) \<subseteq> {REORDER_SUGGESTED}"
    unfolding eq by (auto simp: alert_step_def Let_def)
  have c6: "stock_level.current_stock s \<noteq> 0 \<and>
      \<not> stock_percentage s \<le> of_int (critical_threshold self) \<and>
      \<not> stock_percentage s \<le> of_int (low_threshold self) \<and>
      (days_until_stockout s = None \<or> (\<exists>d. days_until_stockout s = Some d \<and> 7 < d)) \<longrightarrow>
      ?as = []"
    unfolding eq
    by (auto simp: alert_step_def Let_def reorder_condition_def split: option.splits)
  from c0 c1 c2 c3 c4 c5 c6 show ?thesis
    by (intro conjI)
qed

text \<open>
  Claim C4, at the four stock levels of the repository's tests: one alert each for the
  empty, the critical and the low one, in this order, and none for the one at 80%.
\<close>

theorem generate_alerts_priority_witness:
  "map alert_type
     (generate_alerts settings [test_out_of_stock, test_critical, test_low, test_healthy]) =
     [OUT_OF_STOCK, CRITICAL_STOCK, LOW_STOCK] \<and>
   stock_level.current_stock test_out_of_stock = 0 \<and>
   stock_level.current_stock test_critical \<noteq> 0 \<and>
   stock_percentage test_critical \<le> of_int (critical_threshold settings) \<and>
   \<not> stock_percentage test_low \<le> of_int (critical_threshold settings) \<and>
   stock_percentage test_low \<le> of_int (low_threshold settings) \<and>
   \<not> stock_percentage test_healthy \<le> of_int (low_threshold settings) \<and>
   days_until_stockout test_healthy = None \<and>
   generate_alerts settings [test_healthy] = []"
proof -
  let ?ss = "[test_out_of_stock, test_critical, test_low, test_healthy]"
  note p = generate_alerts_priority [of settings ?ss]
  have a: "stock_level.current_stock test_out_of_stock = 0"
    by (simp add: test_out_of_stock_def)
  have b: "stock_level.current_stock test_critical \<noteq> 0 \<and>
      stock_percentage test_critical \<le> of_int (critical_threshold settings)"
    by (simp add: test_critical_def settings_def)
  have c: "stock_level.current_stock test_low \<noteq> 0 \<and>
      \<not> stock_percentage test_low \<le> of_int (critical_threshold settings) \<and>
      stock_percentage test_low \<le> of_int (low_threshold settings)"
    by (simp add: test_low_def settings_def)
  have d: "stock_level.current_stock test_healthy \<noteq> 0 \<and>
      \<not> stock_percentage test_healthy \<le> of_int (critical_threshold settings) \<and>
      \<not> stock_percentage test_healthy \<le> of_int (low_threshold settings) \<and>
      days_until_stockout test_healthy = None"
    by (simp add: test_healthy_def settings_def)
  have 1: "map alert_type (generate_alerts settings [test_out_of_stock]) = [OUT_OF_STOCK]"
    using p [of test_out_of_stock] a by blast
  have 2: "map alert_type (generate_alerts settings [test_critical]) = [CRITICAL_STOCK]"
    using p [of test_critical] b by blast
  have 3: "map alert_type (generate_alerts settings [test_low]) = [LOW_STOCK]"
    using p [of test_low] c by blast
  have 4: "generate_alerts settings [test_healthy] = []"
    using p [of test_healthy] d by blast
  have "generate_alerts settings ?ss = concat (map (\<lambda>s. generate_alerts settings [s]) ?ss)"
    using p [of test_healthy] by blast
  then have "map alert_type (generate_alerts settings ?ss) =
      [OUT_OF_STOCK, CRITICAL_STOCK, LOW_STOCK]"
    using 1 2 3 4 by simp
  with a b c d 4 show ?thesis by simp
qed

text \<open>
  Claim C9: every alert that \<open>generate_alerts\<close> returns has one of the four types
  \<open>out_of_stock\<close>, \<open>critical_stock\<close>, \<open>low_stock\<close> and \<open>reorder_suggested\<close>; none has the
  type \<open>velocity_anomaly\<close>, although the enumeration declares it.
  (\<^verbatim>\<open>detect_velocity_anomalies\<close> has no call site in the repository, and
  \<open>generate_alerts\<close> is the only place that constructs an alert.)
\<close>

theorem generate_alerts_types:
  "\<forall>a \<in> set (generate_alerts self stocks).
     alert_type a \<in> {OUT_OF_STOCK, CRITICAL_STOCK, LOW_STOCK, REORDER_SUGGESTED} \<and>
     alert_type a \<noteq> VELOCITY_ANOMALY"
proof -
  have one: "\<forall>a \<in> set (alert_step self [] s).
     alert_type a \<in> {OUT_OF_STOCK, CRITICAL_STOCK, LOW_STOCK, REORDER_SUGGESTED}" for s
    by (simp add: alert_step_def Let_def)
  have "\<forall>a \<in> set (generate_alerts self stocks).
     alert_type a \<in> {OUT_OF_STOCK, CRITICAL_STOCK, LOW_STOCK, REORDER_SUGGESTED}"
    using one by (subst generate_alerts_concat) (simp add: generate_alerts_single)
  then show ?thesis by auto
qed

text \<open>Claim C9, at the low stock level of the repository's tests, which raises an alert.\<close>

theorem generate_alerts_types_witness:
  "generate_alerts settings [test_low] \<noteq> [] \<and>
   alert_type (hd (generate_alerts settings [test_low])) \<noteq> VELOCITY_ANOMALY"
proof -
  have ne: "generate_alerts settings [test_low] \<noteq> []"
    by (simp add: generate_alerts_def alert_step_def test_low_def settings_def)
  then have "hd (generate_alerts settings [test_low]) \<in> set (generate_alerts settings [test_low])"
    by simp
  with generate_alerts_types [of settings "[test_low]"] ne show ?thesis
    by blast
qed

text \<open>
  Claim C3: a stock level with a positive stock, a percentage above both thresholds, a
  defined \<open>days_until_stockout\<close> of at most 7 and a positive suggested quantity gets an
  alert of type \<open>reorder_suggested\<close> and severity \<open>info\<close>. The code tests
  \<^verbatim>\<open>days_until_stockout and ...\<close>, and 0 is as falsy as \<open>None\<close>: the product with 30 units
  that sells 50 a day runs out within the day (\<open>days_until_stockout = 0\<close>), has the
  suggested quantity 70, and gets no alert.
\<close>

theorem urgent_stock_no_alert:
  "check_stock_levels settings ''demo_location'' [thirty_units] [coffee_beans] [bulk_order] =
     Inr [urgent_stock] \<and>
   0 < stock_level.current_stock urgent_stock \<and>
   of_int (critical_threshold settings) < stock_percentage urgent_stock \<and>
   of_int (low_threshold settings) < stock_percentage urgent_stock \<and>
   days_until_stockout urgent_stock = Some 0 \<and>
   suggested_reorder_quantity urgent_stock = Some 70 \<and>
   generate_alerts settings [urgent_stock] = []"
  using urgent_stock_checked
  by (simp add: generate_alerts_def alert_step_def reorder_condition_def urgent_stock_def
      settings_def)

end
